theory Spec2Isabelle
  imports Main
begin

section \<open>Python values and exceptions\<close>

text \<open>
  The component of \<^verbatim>\<open>asphalt/sqlalchemy/component.py\<close> receives keyword
  dictionaries of type \<^verbatim>\<open>Dict[str, Any]\<close>. A dictionary is a map from strings
  to values; the values are the Python objects the code looks at or stores: \<^verbatim>\<open>None\<close>,
  booleans, integers, strings, nested dictionaries, and classes or other objects known by
  their name only.
\<close>

datatype pyval =
    VNone
  | VBool bool
  | VInt int
  | VStr string
  | VDict "string \<Rightarrow> pyval option"
  | VClass string

type_synonym kwargs = "string \<Rightarrow> pyval option"

text \<open>
  Exceptions are values. \<open>TypeError\<close>, \<open>AttributeError\<close> and \<open>KeyError\<close> are raised by
  the code or by the Python operations it performs; \<open>InvalidRequestError\<close> is the one
  exception class the code catches; every other exception of a collaborator is
  \<open>OtherError\<close> with its name.
\<close>

datatype exn =
    TypeError string
  | AttributeError
  | KeyError string
  | InvalidRequestError
  | OtherError string

text \<open>\<^verbatim>\<open>d.setdefault(k, v)\<close>: the value stays when the key is present.\<close>

definition setdefault :: "kwargs \<Rightarrow> string \<Rightarrow> pyval \<Rightarrow> kwargs" where
  "setdefault d k v = (case d k of None \<Rightarrow> d(k \<mapsto> v) | Some _ \<Rightarrow> d)"

section \<open>Sessions and the teardown finalizers\<close>

text \<open>
  A session is an object of the database layer. The finalizers call four of its methods
  and delete one entry of its \<^verbatim>\<open>info\<close> dictionary. The model of a session holds what
  \<^verbatim>\<open>in_transaction()\<close> reports, what each of \<^verbatim>\<open>commit()\<close>, \<^verbatim>\<open>rollback()\<close> and
  \<^verbatim>\<open>close()\<close> does when called (\<open>None\<close>: it returns; \<open>Some e\<close>: it raises \<open>e\<close>), the
  \<^verbatim>\<open>info\<close> dictionary, and the log of the operations performed on the session so far,
  oldest first.
\<close>

datatype call = CallInTransaction | CallCommit | CallRollback | CallClose | DelInfoCtx

record session =
  in_transaction :: bool
  commit_outcome :: "exn option"
  rollback_outcome :: "exn option"
  close_outcome :: "exn option"
  info :: kwargs
  calls :: "call list"

definition log_call :: "call \<Rightarrow> session \<Rightarrow> session" where
  "log_call c s = s\<lparr>calls := calls s @ [c]\<rparr>"

text \<open>
  The \<^verbatim>\<open>try\<close> block (lines 136-140 and 152-156): commit or roll back when the
  session is in a transaction. The result is the session afterwards and the exception
  that left the block, if any.
\<close>

definition teardown_try :: "exn option \<Rightarrow> session \<Rightarrow> session \<times> exn option" where
  "teardown_try exception s0 =
     (let s1 = log_call CallInTransaction s0 in
      if in_transaction s1 then
        (if exception = None then (log_call CallCommit s1, commit_outcome s1)
         else (log_call CallRollback s1, rollback_outcome s1))
      else (s1, None))"

text \<open>
  The \<^verbatim>\<open>finally\<close> block (lines 142-143 and 158-159): \<^verbatim>\<open>session.close()\<close>, then
  \<^verbatim>\<open>del session.info["ctx"]\<close>. When \<^verbatim>\<open>close()\<close> raises, the deletion is not
  reached; the deletion raises \<open>KeyError\<close> when the key is absent.
\<close>

definition teardown_finally :: "session \<Rightarrow> session \<times> exn option" where
  "teardown_finally s0 =
     (let s1 = log_call CallClose s0 in
      case close_outcome s1 of
        Some e \<Rightarrow> (s1, Some e)
      | None \<Rightarrow>
          (let s2 = log_call DelInfoCtx s1 in
           case info s2 ''ctx'' of
             None \<Rightarrow> (s2, Some (KeyError ''ctx''))
           | Some _ \<Rightarrow> (s2\<lparr>info := (info s2)(''ctx'' := None)\<rparr>, None)))"

text \<open>
  \<^verbatim>\<open>try: ... finally: ...\<close>: the \<^verbatim>\<open>finally\<close> block always runs; an exception it
  raises replaces the one of the \<^verbatim>\<open>try\<close> block, otherwise the exception of the
  \<^verbatim>\<open>try\<close> block, if any, is raised again after it.
\<close>

definition try_finally ::
  "(session \<Rightarrow> session \<times> exn option) \<Rightarrow> (session \<Rightarrow> session \<times> exn option) \<Rightarrow>
   session \<Rightarrow> session \<times> exn option" where
  "try_finally body cleanup s0 =
     (case body s0 of (s1, r1) \<Rightarrow>
        (case cleanup s1 of
           (s2, Some e2) \<Rightarrow> (s2, Some e2)
         | (s2, None) \<Rightarrow> (s2, r1)))"

text \<open>
  \<^verbatim>\<open>teardown_session\<close> of \<^verbatim>\<open>create_session\<close> (lines 134-143), the finalizer of a
  synchronous session. Its argument is the exception that ended the unit of work, or
  \<open>None\<close>.
\<close>

definition teardown_session :: "exn option \<Rightarrow> session \<Rightarrow> session \<times> exn option" where
  "teardown_session exception s = try_finally (teardown_try exception) teardown_finally s"

text \<open>
  \<^verbatim>\<open>teardown_session\<close> of \<^verbatim>\<open>create_async_session\<close> (lines 150-159): the same
  statements, each call awaited.
\<close>

definition teardown_session_async :: "exn option \<Rightarrow> session \<Rightarrow> session \<times> exn option" where
  "teardown_session_async exception s =
     try_finally (teardown_try exception) teardown_finally s"

text \<open>The operations a finalizer performed: the log after it, without the log before.\<close>

definition performed :: "session \<Rightarrow> session \<Rightarrow> call list" where
  "performed s s' = drop (length (calls s)) (calls s')"

text \<open>
  \<open>before a b xs\<close>: in the log \<open>xs\<close>, no \<open>a\<close> comes after a \<open>b\<close>.
\<close>

fun before :: "call \<Rightarrow> call \<Rightarrow> call list \<Rightarrow> bool" where
  "before a b [] = True"
| "before a b (x # xs) = (if x = b then a \<notin> set xs else before a b xs)"

section \<open>The objects of the database layer\<close>

text \<open>
  A URL object is opaque to the component: it is made by \<^verbatim>\<open>URL.create\<close> or
  \<^verbatim>\<open>make_url\<close> and only asked for its dialect's name. A connection or an engine is an
  object of one of four classes; \<^verbatim>\<open>isinstance\<close> reads the class.
\<close>

datatype url = URL string

datatype dbclass = Connection | Engine | AsyncConnection | AsyncEngine

datatype dbobj = DbObj (cls: dbclass) (oid: nat)

text \<open>The \<^verbatim>\<open>url\<close> argument: \<^verbatim>\<open>Union[str, URL, Dict[str, Any]]\<close>.\<close>

datatype url_arg = UrlStr string | UrlObj url | UrlDict kwargs

text \<open>A session factory keeps the bind and the keyword arguments it was built with.\<close>

datatype sessionmaker = Sessionmaker (sm_bind: dbobj) (sm_kw: kwargs)

text \<open>
  The calls the component makes into its collaborators, in the order made. An event is
  logged when the collaborator is entered, with the arguments it receives.
\<close>

datatype event =
    EvURLCreate kwargs
  | EvMakeUrl string
  | EvGetDialect url
  | EvResolveReference string
  | EvCreateAsyncEngine url pyval kwargs
  | EvCreateEngine url pyval kwargs
  | EvApplySqliteHacks dbobj
  | EvSessionmaker dbobj kwargs
  | EvDispose dbobj
  | EvAwaitDispose dbobj
  | EvLogInfo string

text \<open>
  The collaborators themselves are not part of this module. What each does when called is
  a parameter: it returns a value (\<open>Inr\<close>) or raises (\<open>Inl\<close>); for a call with no
  result, \<open>None\<close> is a normal return and \<open>Some e\<close> raises \<open>e\<close>. \<open>engine_attr\<close> reads
  the attribute \<^verbatim>\<open>bind.engine\<close>.
\<close>

record env =
  URL_create :: "kwargs \<Rightarrow> exn + url"
  make_url :: "string \<Rightarrow> exn + url"
  get_dialect_name :: "url \<Rightarrow> exn + string"
  resolve_reference :: "string \<Rightarrow> exn + pyval"
  create_async_engine :: "url \<Rightarrow> pyval \<Rightarrow> kwargs \<Rightarrow> exn + dbobj"
  create_engine :: "url \<Rightarrow> pyval \<Rightarrow> kwargs \<Rightarrow> exn + dbobj"
  apply_sqlite_hacks :: "dbobj \<Rightarrow> exn option"
  engine_attr :: "dbobj \<Rightarrow> dbobj"
  sessionmaker_new :: "dbobj \<Rightarrow> kwargs \<Rightarrow> exn option"
  dispose :: "dbobj \<Rightarrow> exn option"

record component =
  resource_name :: string
  commit_executor_workers :: int
  bind :: dbobj
  engine :: dbobj
  sessionmaker :: sessionmaker

section \<open>Running code that calls collaborators and may raise\<close>

text \<open>
  A computation yields the events it caused and either the exception that ended it or
  its value.
\<close>

type_synonym 'a res = "event list \<times> (exn + 'a)"

definition ret :: "'a \<Rightarrow> 'a res" where
  "ret x = ([], Inr x)"

definition raise :: "exn \<Rightarrow> 'a res" where
  "raise e = ([], Inl e)"

definition call :: "event \<Rightarrow> exn + 'a \<Rightarrow> 'a res" where
  "call ev r = ([ev], r)"

definition call_unit :: "event \<Rightarrow> exn option \<Rightarrow> unit res" where
  "call_unit ev r = ([ev], case r of None \<Rightarrow> Inr () | Some e \<Rightarrow> Inl e)"

text \<open>Sequencing: an exception ends the sequence; the events accumulate.\<close>

definition bnd :: "'a res \<Rightarrow> ('a \<Rightarrow> 'b res) \<Rightarrow> 'b res" where
  "bnd m f =
     (case m of
        (t, Inl e) \<Rightarrow> (t, Inl e)
      | (t, Inr x) \<Rightarrow> (case f x of (t', r) \<Rightarrow> (t @ t', r)))"

text \<open>
  \<^verbatim>\<open>try: m  except C: handler\<close>, where \<open>catches e\<close> says that \<open>e\<close> is an instance
  of \<^verbatim>\<open>C\<close>.
\<close>

definition try_except :: "'a res \<Rightarrow> (exn \<Rightarrow> bool) \<Rightarrow> 'a res \<Rightarrow> 'a res" where
  "try_except m catches handler =
     (case m of
        (t, Inr x) \<Rightarrow> (t, Inr x)
      | (t, Inl e) \<Rightarrow>
          (if catches e then (case handler of (t', r) \<Rightarrow> (t @ t', r)) else (t, Inl e)))"

section \<open>The constructor\<close>

text \<open>
  Lines 97-102. A dictionary goes through \<^verbatim>\<open>URL.create(**url)\<close>, a string through
  \<^verbatim>\<open>make_url(url)\<close>, \<^verbatim>\<open>None\<close> raises \<^verbatim>\<open>TypeError\<close>, a URL object stays.
\<close>

definition normalize_url :: "env \<Rightarrow> url_arg option \<Rightarrow> url res" where
  \<open>normalize_url env url =
     (case url of
        Some (UrlDict d) \<Rightarrow> call (EvURLCreate d) (URL_create env d)
      | Some (UrlStr s) \<Rightarrow> call (EvMakeUrl s) (make_url env s)
      | None \<Rightarrow> raise (TypeError ''both "url" and "bind" cannot be None'')
      | Some (UrlObj u) \<Rightarrow> ret u)\<close>

text \<open>
  Lines 107-109. For the sqlite dialect, \<^verbatim>\<open>engine_args.setdefault("connect_args", {})\<close>
  gives the dictionary already there or a new empty one, and
  \<^verbatim>\<open>connect_args.setdefault("check_same_thread", False)\<close> changes it in place. A value
  under \<^verbatim>\<open>connect_args\<close> that is no dictionary has no \<^verbatim>\<open>setdefault\<close>:
  \<^verbatim>\<open>AttributeError\<close>.
\<close>

definition sqlite_connect_args :: "env \<Rightarrow> url \<Rightarrow> kwargs \<Rightarrow> kwargs res" where
  "sqlite_connect_args env url engine_args =
     bnd (call (EvGetDialect url) (get_dialect_name env url)) (\<lambda>name.
       if name = ''sqlite'' then
         (case setdefault engine_args ''connect_args'' (VDict Map.empty) ''connect_args'' of
            Some (VDict connect_args) \<Rightarrow>
              ret (engine_args(''connect_args'' \<mapsto>
                     VDict (setdefault connect_args ''check_same_thread'' (VBool False))))
          | _ \<Rightarrow> raise AttributeError)
       else ret engine_args)"

text \<open>Lines 111-114. A pool class given by name is resolved; \<^verbatim>\<open>cast\<close> does nothing.\<close>

definition resolve_poolclass :: "env \<Rightarrow> pyval \<Rightarrow> pyval res" where
  "resolve_poolclass env poolclass =
     (case poolclass of
        VStr s \<Rightarrow> call (EvResolveReference s) (resolve_reference env s)
      | _ \<Rightarrow> ret poolclass)"

text \<open>
  A call \<^verbatim>\<open>f(url, poolclass=pool_class, **engine_args)\<close>: Python raises
  \<^verbatim>\<open>TypeError\<close> before entering \<open>f\<close> when \<^verbatim>\<open>engine_args\<close> has the key
  \<^verbatim>\<open>poolclass\<close> too.
\<close>

definition call_engine_factory ::
  "(url \<Rightarrow> pyval \<Rightarrow> kwargs \<Rightarrow> event) \<Rightarrow> (url \<Rightarrow> pyval \<Rightarrow> kwargs \<Rightarrow> exn + dbobj) \<Rightarrow>
   url \<Rightarrow> pyval \<Rightarrow> kwargs \<Rightarrow> dbobj res" where
  "call_engine_factory ev f url pool_class engine_args =
     (if ''poolclass'' \<in> dom engine_args
      then raise (TypeError ''got multiple values for keyword argument poolclass'')
      else call (ev url pool_class engine_args) (f url pool_class engine_args))"

text \<open>Line 119: \<^verbatim>\<open>except InvalidRequestError\<close>.\<close>

definition is_InvalidRequestError :: "exn \<Rightarrow> bool" where
  "is_InvalidRequestError e = (e = InvalidRequestError)"

text \<open>Lines 115-122.\<close>

definition create_engines :: "env \<Rightarrow> url \<Rightarrow> pyval \<Rightarrow> kwargs \<Rightarrow> dbobj res" where
  "create_engines env url pool_class engine_args =
     try_except
       (call_engine_factory EvCreateAsyncEngine (create_async_engine env) url pool_class engine_args)
       is_InvalidRequestError
       (call_engine_factory EvCreateEngine (create_engine env) url pool_class engine_args)"

text \<open>Lines 124-125.\<close>

definition sqlite_hacks :: "env \<Rightarrow> url \<Rightarrow> dbobj \<Rightarrow> unit res" where
  "sqlite_hacks env url e =
     bnd (call (EvGetDialect url) (get_dialect_name env url)) (\<lambda>name.
       if name = ''sqlite'' then call_unit (EvApplySqliteHacks e) (apply_sqlite_hacks env e)
       else ret ())"

text \<open>
  Lines 97-114, the \<^verbatim>\<open>else\<close> branch of line 96 up to the \<^verbatim>\<open>try\<close> statement:
  the URL object, the pool class and the engine arguments the engine is then built from.
\<close>

definition engine_inputs ::
  "env \<Rightarrow> url_arg option \<Rightarrow> kwargs \<Rightarrow> pyval \<Rightarrow> (url \<times> pyval \<times> kwargs) res" where
  "engine_inputs env url engine_args poolclass =
     bnd (normalize_url env url) (\<lambda>u.
     bnd (sqlite_connect_args env u engine_args) (\<lambda>engine_args'.
     bnd (resolve_poolclass env poolclass) (\<lambda>pool_class.
     ret (u, pool_class, engine_args'))))"

text \<open>
  Lines 97-125, the \<^verbatim>\<open>else\<close> branch as a whole: the pair is
  (\<^verbatim>\<open>self.bind\<close>, \<^verbatim>\<open>self.engine\<close>), both the engine made.
\<close>

definition engine_from_url ::
  "env \<Rightarrow> url_arg option \<Rightarrow> kwargs \<Rightarrow> pyval \<Rightarrow> (dbobj \<times> dbobj) res" where
  "engine_from_url env url engine_args poolclass =
     bnd (engine_inputs env url engine_args poolclass) (\<lambda>(u, pool_class, engine_args').
     bnd (create_engines env u pool_class engine_args') (\<lambda>e.
     bnd (sqlite_hacks env u e) (\<lambda>_.
     ret (e, e))))"

text \<open>
  Line 130, \<^verbatim>\<open>sessionmaker(bind=self.bind, **session_args)\<close>: \<^verbatim>\<open>TypeError\<close> when
  \<^verbatim>\<open>session_args\<close> has the key \<^verbatim>\<open>bind\<close> too.
\<close>

definition make_sessionmaker :: "env \<Rightarrow> dbobj \<Rightarrow> kwargs \<Rightarrow> sessionmaker res" where
  "make_sessionmaker env b session_args =
     (if ''bind'' \<in> dom session_args
      then raise (TypeError ''got multiple values for keyword argument bind'')
      else bnd (call_unit (EvSessionmaker b session_args) (sessionmaker_new env b session_args))
             (\<lambda>_. ret (Sessionmaker b session_args)))"

text \<open>\<^verbatim>\<open>x or {}\<close>: \<^verbatim>\<open>None\<close> and the empty dictionary are both false.\<close>

definition or_empty :: "kwargs option \<Rightarrow> kwargs" where
  "or_empty d = (case d of None \<Rightarrow> Map.empty | Some m \<Rightarrow> m)"

text \<open>Lines 89-91: the two keys are assigned, whatever the caller gave.\<close>

definition fixed_session_args :: "kwargs option \<Rightarrow> kwargs" where
  "fixed_session_args session_args =
     ((or_empty session_args)(''expire_on_commit'' \<mapsto> VBool False))(''future'' \<mapsto> VBool True)"

text \<open>Lines 127-128: \<^verbatim>\<open>session_args.setdefault("class_", AsyncSession)\<close>.\<close>

definition session_class_args :: "dbobj \<Rightarrow> kwargs \<Rightarrow> kwargs" where
  "session_class_args e session_args =
     (if cls e = AsyncEngine
      then setdefault session_args ''class_'' (VClass ''AsyncSession'')
      else session_args)"

text \<open>
  \<^verbatim>\<open>SQLAlchemyComponent.__init__\<close> (lines 74-130). The arguments are of the types
  the signature declares, so \<^verbatim>\<open>check_argument_types()\<close> passes. \<^verbatim>\<open>if bind:\<close> tests
  truth; a connection or an engine is a true object, so the test is whether \<^verbatim>\<open>bind\<close>
  was given.
\<close>

definition init ::
  "env \<Rightarrow> url_arg option \<Rightarrow> dbobj option \<Rightarrow> kwargs option \<Rightarrow> kwargs option \<Rightarrow> int \<Rightarrow>
   pyval \<Rightarrow> string \<Rightarrow> component res" where
  "init env url bind_arg engine_args session_args workers poolclass name =
     (let engine_args1 = or_empty engine_args;
          session_args1 = fixed_session_args session_args
      in
      bnd (case bind_arg of
             Some b \<Rightarrow> ret (b, engine_attr env b)
           | None \<Rightarrow> engine_from_url env url engine_args1 poolclass) (\<lambda>(b, e).
      let session_args2 = session_class_args e session_args1
      in
      bnd (make_sessionmaker env b session_args2) (\<lambda>sm.
      ret \<lparr>resource_name = name, commit_executor_workers = workers,
           bind = b, engine = e, sessionmaker = sm\<rparr>)))"

section \<open>Shutdown\<close>

text \<open>
  The part of \<^verbatim>\<open>start\<close> after \<^verbatim>\<open>yield\<close> (lines 194-199), run when the context
  ends: an \<^verbatim>\<open>Engine\<close> is disposed, an \<^verbatim>\<open>AsyncEngine\<close> is disposed and awaited,
  anything else is left alone; then the shutdown is logged.
\<close>

definition start_teardown :: "env \<Rightarrow> component \<Rightarrow> unit res" where
  "start_teardown env c =
     bnd (if cls (bind c) = Engine then call_unit (EvDispose (bind c)) (dispose env (bind c))
          else if cls (bind c) = AsyncEngine
          then call_unit (EvAwaitDispose (bind c)) (dispose env (bind c))
          else ret ()) (\<lambda>_.
     call_unit (EvLogInfo (''SQLAlchemy resources ('' @ resource_name c @ '') shut down'')) None)"

section \<open>Concrete collaborators\<close>

text \<open>
  Two database layers to run the constructor against. In the first the driver has no
  asynchronous support: \<^verbatim>\<open>create_async_engine\<close> raises
  \<^verbatim>\<open>InvalidRequestError\<close>, and the dialect is sqlite. In the second the driver is
  asynchronous. In both, the engine of a connection is an engine of the same kind and an
  engine is its own engine.
\<close>

definition engine_of :: "dbobj \<Rightarrow> dbobj" where
  "engine_of b =
     (case cls b of
        Connection \<Rightarrow> DbObj Engine 0
      | AsyncConnection \<Rightarrow> DbObj AsyncEngine 0
      | _ \<Rightarrow> b)"

definition sqlite_env :: env where
  "sqlite_env =
     \<lparr>URL_create = (\<lambda>d. Inr (URL ''sqlite:///:memory:'')),
      make_url = (\<lambda>s. Inr (URL s)),
      get_dialect_name = (\<lambda>u. Inr ''sqlite''),
      resolve_reference = (\<lambda>s. Inr (VClass s)),
      create_async_engine = (\<lambda>u p kw. Inl InvalidRequestError),
      create_engine = (\<lambda>u p kw. Inr (DbObj Engine 1)),
      apply_sqlite_hacks = (\<lambda>e. None),
      engine_attr = engine_of,
      sessionmaker_new = (\<lambda>b kw. None),
      dispose = (\<lambda>b. None)\<rparr>"

definition asyncpg_env :: env where
  "asyncpg_env =
     \<lparr>URL_create = (\<lambda>d. Inr (URL ''postgresql+asyncpg://localhost/db'')),
      make_url = (\<lambda>s. Inr (URL s)),
      get_dialect_name = (\<lambda>u. Inr ''postgresql''),
      resolve_reference = (\<lambda>s. Inr (VClass s)),
      create_async_engine = (\<lambda>u p kw. Inr (DbObj AsyncEngine 1)),
      create_engine = (\<lambda>u p kw. Inr (DbObj Engine 2)),
      apply_sqlite_hacks = (\<lambda>e. None),
      engine_attr = engine_of,
      sessionmaker_new = (\<lambda>b kw. None),
      dispose = (\<lambda>b. None)\<rparr>"

text \<open>A layer whose asynchronous engine construction fails for another reason.\<close>

definition unreachable_env :: env where
  "unreachable_env =
     asyncpg_env\<lparr>create_async_engine := (\<lambda>u p kw. Inl (OtherError ''OperationalError''))\<rparr>"

text \<open>The component built around a connection of the caller's, with default arguments.\<close>

definition connection_component :: component where
  "connection_component =
     \<lparr>resource_name = ''default'', commit_executor_workers = 5,
      bind = DbObj Connection 3, engine = DbObj Engine 0,
      sessionmaker = Sessionmaker (DbObj Connection 3)
        [''expire_on_commit'' \<mapsto> VBool False, ''future'' \<mapsto> VBool True]\<rparr>"

text \<open>The component built around an engine of the caller's, with default arguments.\<close>

definition engine_component :: component where
  "engine_component =
     \<lparr>resource_name = ''default'', commit_executor_workers = 5,
      bind = DbObj Engine 7, engine = DbObj Engine 7,
      sessionmaker = Sessionmaker (DbObj Engine 7)
        [''expire_on_commit'' \<mapsto> VBool False, ''future'' \<mapsto> VBool True]\<rparr>"

section \<open>Concrete sessions\<close>

text \<open>
  A session in a transaction whose \<^verbatim>\<open>commit()\<close> and \<^verbatim>\<open>rollback()\<close> both raise, and
  a session that is in no transaction. Each still carries the \<^verbatim>\<open>ctx\<close> entry that
  \<^verbatim>\<open>create_session\<close> put into \<^verbatim>\<open>info\<close> (line 145).
\<close>

definition failing_session :: session where
  "failing_session =
     \<lparr>in_transaction = True,
      commit_outcome = Some (OtherError ''commit failed''),
      rollback_outcome = Some (OtherError ''rollback failed''),
      close_outcome = None,
      info = [''ctx'' \<mapsto> VClass ''Context''],
      calls = []\<rparr>"


text \<open>
  A session in a transaction whose \<^verbatim>\<open>commit()\<close> raises and whose \<^verbatim>\<open>close()\<close>
  raises too.
\<close>

definition stuck_session :: session where
  "stuck_session =
     \<lparr>in_transaction = True,
      commit_outcome = Some (OtherError ''commit failed''),
      rollback_outcome = None,
      close_outcome = Some (OtherError ''close failed''),
      info = [''ctx'' \<mapsto> VClass ''Context''],
      calls = []\<rparr>"

section \<open>The finalizers: what they do\<close>

lemma teardown_session_async_eq: "teardown_session_async = teardown_session"
  by (rule ext, rule ext) (simp add: teardown_session_async_def teardown_session_def)

lemma teardown_session_calls:
  "calls (fst (teardown_session exception s)) =
     calls s @ [CallInTransaction]
       @ (if in_transaction s then [if exception = None then CallCommit else CallRollback] else [])
       @ [CallClose]
       @ (if close_outcome s = None then [DelInfoCtx] else [])"
  by (simp add: teardown_session_def try_finally_def teardown_try_def teardown_finally_def
      log_call_def Let_def split: option.splits prod.splits)

lemma teardown_session_performed:
  "performed s (fst (teardown_session exception s)) =
     [CallInTransaction]
       @ (if in_transaction s then [if exception = None then CallCommit else CallRollback] else [])
       @ [CallClose]
       @ (if close_outcome s = None then [DelInfoCtx] else [])"
  by (simp add: performed_def teardown_session_calls)

lemma teardown_session_info:
  "close_outcome s = None \<Longrightarrow> info (fst (teardown_session exception s)) ''ctx'' = None"
  by (simp add: teardown_session_def try_finally_def teardown_try_def teardown_finally_def
      log_call_def Let_def split: option.splits prod.splits)

lemma teardown_session_result:
  "close_outcome s = None \<Longrightarrow> info s ''ctx'' \<noteq> None \<Longrightarrow>
   snd (teardown_session exception s) =
     (if in_transaction s
      then (if exception = None then commit_outcome s else rollback_outcome s)
      else None)"
  by (auto simp add: teardown_session_def try_finally_def teardown_try_def teardown_finally_def
      log_call_def Let_def split: option.splits prod.splits)

text \<open>
  The one path on which the deletion is not reached: when \<^verbatim>\<open>close()\<close> itself raises,
  the finalizer raises that exception, whatever the commit or rollback step did, and the
  \<^verbatim>\<open>info\<close> dictionary is as it was.
\<close>

lemma teardown_session_close_raises:
  "close_outcome s = Some e \<Longrightarrow>
   snd (teardown_session exception s) = Some e
   \<and> info (fst (teardown_session exception s)) = info s"
  by (simp add: teardown_session_def try_finally_def teardown_try_def teardown_finally_def
      log_call_def Let_def split: option.splits prod.splits)

text \<open>
  C1, as the code has it. Both finalizers, for every session, every way the unit of work
  ended and every outcome of \<^verbatim>\<open>commit()\<close> and \<^verbatim>\<open>rollback()\<close>: a session in a
  transaction is committed when no exception was passed in and rolled back otherwise;
  then, also when that step raised, \<^verbatim>\<open>close()\<close> is called. When \<^verbatim>\<open>close()\<close>
  returns, the \<^verbatim>\<open>ctx\<close> entry is deleted and is gone afterwards, and, the entry having
  been there to delete, the finalizer ends the way the commit or rollback step ended: it
  raises that step's exception, or returns when there was none. When \<^verbatim>\<open>close()\<close>
  itself raises, the deletion is not reached: the \<^verbatim>\<open>info\<close> dictionary stays as it
  was, and the exception of \<^verbatim>\<open>close()\<close> is the one the finalizer raises.
\<close>

theorem teardown_commit_or_rollback_then_cleanup:
  "fin = teardown_session \<or> fin = teardown_session_async \<Longrightarrow>
   performed s (fst (fin exception s)) =
     [CallInTransaction]
       @ (if in_transaction s then [if exception = None then CallCommit else CallRollback] else [])
       @ [CallClose]
       @ (if close_outcome s = None then [DelInfoCtx] else [])
   \<and> (close_outcome s = None \<longrightarrow>
        info (fst (fin exception s)) ''ctx'' = None
        \<and> (info s ''ctx'' \<noteq> None \<longrightarrow>
             snd (fin exception s) =
               (if in_transaction s
                then (if exception = None then commit_outcome s else rollback_outcome s)
                else None)))
   \<and> (\<forall>e. close_outcome s = Some e \<longrightarrow>
        snd (fin exception s) = Some e \<and> info (fst (fin exception s)) = info s)"
proof -
  assume "fin = teardown_session \<or> fin = teardown_session_async"
  then have fin: "fin = teardown_session"
    by (auto simp add: teardown_session_async_eq)
  show ?thesis
    unfolding fin
    using teardown_session_performed [of s exception]
      teardown_session_info [of s exception]
      teardown_session_result [of s exception]
      teardown_session_close_raises [of s _ exception]
    by simp
qed

text \<open>
  The theorem at the session whose commit and rollback raise: after a successful unit of
  work the asynchronous finalizer commits, closes, deletes the entry and raises the
  commit's exception; after a failed one the synchronous finalizer rolls back, closes,
  deletes the entry and raises the rollback's exception.
\<close>

theorem teardown_commit_or_rollback_then_cleanup_witness:
  "performed failing_session (fst (teardown_session_async None failing_session)) =
     [CallInTransaction, CallCommit, CallClose, DelInfoCtx]
   \<and> info (fst (teardown_session_async None failing_session)) ''ctx'' = None
   \<and> snd (teardown_session_async None failing_session) = Some (OtherError ''commit failed'')
   \<and> performed failing_session
        (fst (teardown_session (Some (OtherError ''handler failed'')) failing_session)) =
     [CallInTransaction, CallRollback, CallClose, DelInfoCtx]
   \<and> info (fst (teardown_session (Some (OtherError ''handler failed'')) failing_session)) ''ctx''
       = None
   \<and> snd (teardown_session (Some (OtherError ''handler failed'')) failing_session) =
       Some (OtherError ''rollback failed'')"
  using teardown_commit_or_rollback_then_cleanup
      [of teardown_session_async failing_session None]
    teardown_commit_or_rollback_then_cleanup
      [of teardown_session failing_session "Some (OtherError ''handler failed'')"]
  by (simp add: failing_session_def)

text \<open>
  C1, as the claim has it, fails: at the session whose \<^verbatim>\<open>commit()\<close> and
  \<^verbatim>\<open>close()\<close> both raise, after a successful unit of work, the synchronous finalizer
  commits and calls \<^verbatim>\<open>close()\<close>, and that is all: the \<^verbatim>\<open>ctx\<close> entry is still in
  \<^verbatim>\<open>info\<close>, and the exception raised is the one of \<^verbatim>\<open>close()\<close>, not the commit's.
\<close>

theorem close_failure_masks_commit_failure:
  "commit_outcome stuck_session = Some (OtherError ''commit failed'')
   \<and> performed stuck_session (fst (teardown_session None stuck_session)) =
       [CallInTransaction, CallCommit, CallClose]
   \<and> info (fst (teardown_session None stuck_session)) ''ctx'' = Some (VClass ''Context'')
   \<and> snd (teardown_session None stuck_session) = Some (OtherError ''close failed'')"
  by (simp add: stuck_session_def performed_def teardown_session_def try_finally_def
      teardown_try_def teardown_finally_def log_call_def Let_def)

text \<open>
  C6, as the code has it. Both finalizers, in every execution, whether the unit of work
  failed or not and whatever the session's operations do: \<^verbatim>\<open>close()\<close> is called
  exactly once; no commit and no rollback comes after it; the \<^verbatim>\<open>try\<close> block leaves
  \<^verbatim>\<open>info\<close> untouched, so the \<^verbatim>\<open>ctx\<close> entry is still there when \<^verbatim>\<open>close()\<close> is
  called; the deletion never comes before \<^verbatim>\<open>close()\<close>, and it is performed exactly
  when \<^verbatim>\<open>close()\<close> returned: afterwards \<^verbatim>\<open>info\<close> is the dictionary without the
  \<^verbatim>\<open>ctx\<close> entry in that case, and the dictionary as it was when \<^verbatim>\<open>close()\<close> raised.
\<close>

theorem teardown_order:
  "fin = teardown_session \<or> fin = teardown_session_async \<Longrightarrow>
   count_list (performed s (fst (fin exception s))) CallClose = 1
   \<and> before CallCommit CallClose (performed s (fst (fin exception s)))
   \<and> before CallRollback CallClose (performed s (fst (fin exception s)))
   \<and> before CallClose DelInfoCtx (performed s (fst (fin exception s)))
   \<and> (DelInfoCtx \<in> set (performed s (fst (fin exception s)))) = (close_outcome s = None)
   \<and> info (fst (teardown_try exception s)) = info s
   \<and> info (fst (fin exception s)) =
       (if close_outcome s = None then (info s)(''ctx'' := None) else info s)"
proof -
  assume "fin = teardown_session \<or> fin = teardown_session_async"
  then have fin: "fin = teardown_session"
    by (auto simp add: teardown_session_async_eq)
  have log: "count_list (performed s (fst (teardown_session exception s))) CallClose = 1
   \<and> before CallCommit CallClose (performed s (fst (teardown_session exception s)))
   \<and> before CallRollback CallClose (performed s (fst (teardown_session exception s)))
   \<and> before CallClose DelInfoCtx (performed s (fst (teardown_session exception s)))
   \<and> (DelInfoCtx \<in> set (performed s (fst (teardown_session exception s))))
       = (close_outcome s = None)"
    by (simp add: teardown_session_performed)
  have untouched: "info (fst (teardown_try exception s)) = info s"
    by (simp add: teardown_try_def log_call_def Let_def)
  have state: "info (fst (teardown_session exception s)) =
       (if close_outcome s = None then (info s)(''ctx'' := None) else info s)"
    by (rule ext)
      (simp add: teardown_session_def try_finally_def teardown_try_def teardown_finally_def
        log_call_def Let_def split: option.splits prod.splits)
  from log untouched state show ?thesis
    unfolding fin by simp
qed

text \<open>
  The theorem at the session whose commit and rollback raise and whose \<^verbatim>\<open>close()\<close>
  returns: the commit comes before the close, the deletion after it, and the entry is
  gone.
\<close>

theorem teardown_order_witness:
  "count_list (performed failing_session (fst (teardown_session None failing_session)))
     CallClose = 1
   \<and> before CallCommit CallClose
       (performed failing_session (fst (teardown_session None failing_session)))
   \<and> before CallRollback CallClose
       (performed failing_session (fst (teardown_session None failing_session)))
   \<and> before CallClose DelInfoCtx
       (performed failing_session (fst (teardown_session None failing_session)))
   \<and> DelInfoCtx \<in> set (performed failing_session (fst (teardown_session None failing_session)))
   \<and> info (fst (teardown_session None failing_session)) ''ctx'' = None"
  using teardown_order [of teardown_session failing_session None]
  by (simp add: failing_session_def)

text \<open>
  C6, as the claim has it, fails on a failure path: at the session whose \<^verbatim>\<open>close()\<close>
  raises, after a failed unit of work, the asynchronous finalizer rolls back and calls
  \<^verbatim>\<open>close()\<close>; no deletion follows, and the \<^verbatim>\<open>ctx\<close> entry is still in
  \<^verbatim>\<open>info\<close>.
\<close>

theorem close_failure_leaves_context_entry:
  "performed stuck_session
     (fst (teardown_session_async (Some (OtherError ''handler failed'')) stuck_session)) =
     [CallInTransaction, CallRollback, CallClose]
   \<and> DelInfoCtx \<notin> set (performed stuck_session
        (fst (teardown_session_async (Some (OtherError ''handler failed'')) stuck_session)))
   \<and> info (fst (teardown_session_async (Some (OtherError ''handler failed'')) stuck_session))
        ''ctx'' = Some (VClass ''Context'')"
  by (simp add: stuck_session_def performed_def teardown_session_async_def try_finally_def
      teardown_try_def teardown_finally_def log_call_def Let_def)



section \<open>The constructor: what it does\<close>

lemma bnd_ret: "bnd (ret x) f = f x"
  by (simp add: bnd_def ret_def split: prod.splits)

lemma bnd_raise: "bnd (raise e) f = raise e"
  by (simp add: bnd_def raise_def)

lemma bnd_Inl: "bnd (t, Inl e) f = (t, Inl e)"
  by (simp add: bnd_def)

lemma bnd_Inr: "bnd (t, Inr x) f = (t @ fst (f x), snd (f x))"
  by (simp add: bnd_def split: prod.splits)

lemma fst_bnd:
  "fst (bnd m f) = fst m @ (case snd m of Inl e \<Rightarrow> [] | Inr x \<Rightarrow> fst (f x))"
  by (cases m) (simp add: bnd_def split: sum.splits prod.splits)

lemma snd_bnd:
  "snd (bnd m f) = (case snd m of Inl e \<Rightarrow> Inl e | Inr x \<Rightarrow> snd (f x))"
  by (cases m) (simp add: bnd_def split: sum.splits prod.splits)

lemma init_bind:
  "init env url (Some b) engine_args session_args workers poolclass name =
     bnd (make_sessionmaker env b
            (session_class_args (engine_attr env b) (fixed_session_args session_args)))
       (\<lambda>sm. ret \<lparr>resource_name = name, commit_executor_workers = workers,
           bind = b, engine = engine_attr env b, sessionmaker = sm\<rparr>)"
  by (simp add: init_def bnd_ret Let_def)

lemma make_sessionmaker_events:
  "ev \<in> set (fst (make_sessionmaker env b kw)) \<Longrightarrow> ev = EvSessionmaker b kw"
  by (auto simp add: make_sessionmaker_def raise_def call_unit_def fst_bnd ret_def
      split: if_splits option.splits sum.splits)

lemma make_sessionmaker_ok:
  "''bind'' \<notin> dom kw \<Longrightarrow> sessionmaker_new env b kw = None \<Longrightarrow>
   make_sessionmaker env b kw = ([EvSessionmaker b kw], Inr (Sessionmaker b kw))"
  by (auto simp add: make_sessionmaker_def call_unit_def bnd_def ret_def)

lemma bnd_events:
  assumes "ev \<in> set (fst (bnd m f))"
    and "\<And>ev. ev \<in> set (fst m) \<Longrightarrow> P ev"
    and "\<And>x ev. ev \<in> set (fst (f x)) \<Longrightarrow> P ev"
  shows "P ev"
  using assms by (auto simp add: fst_bnd split: sum.splits)

lemma normalize_url_events:
  "ev \<in> set (fst (normalize_url env url)) \<Longrightarrow> ev \<noteq> EvSessionmaker b kw"
  by (auto simp add: normalize_url_def call_def ret_def raise_def
      split: option.splits url_arg.splits)

lemma sqlite_connect_args_events:
  "ev \<in> set (fst (sqlite_connect_args env u ea)) \<Longrightarrow> ev = EvGetDialect u"
  by (auto simp add: sqlite_connect_args_def fst_bnd call_def ret_def raise_def
      split: sum.splits option.splits pyval.splits if_splits)

lemma resolve_poolclass_events:
  "ev \<in> set (fst (resolve_poolclass env pc)) \<Longrightarrow> ev \<noteq> EvSessionmaker b kw"
  by (auto simp add: resolve_poolclass_def call_def ret_def split: pyval.splits)

lemma engine_inputs_events:
  assumes "ev \<in> set (fst (engine_inputs env url ea pc))"
  shows "ev \<noteq> EvSessionmaker b kw"
  using assms unfolding engine_inputs_def
proof (rule bnd_events)
  fix ev assume "ev \<in> set (fst (normalize_url env url))"
  then show "ev \<noteq> EvSessionmaker b kw" by (rule normalize_url_events)
next
  fix u ev
  assume "ev \<in> set (fst (bnd (sqlite_connect_args env u ea)
            (\<lambda>engine_args'. bnd (resolve_poolclass env pc)
               (\<lambda>pool_class. ret (u, pool_class, engine_args')))))"
  then show "ev \<noteq> EvSessionmaker b kw"
  proof (rule bnd_events)
    fix ev assume "ev \<in> set (fst (sqlite_connect_args env u ea))"
    then show "ev \<noteq> EvSessionmaker b kw" by (auto dest: sqlite_connect_args_events)
  next
    fix ea' :: kwargs and ev
    assume "ev \<in> set (fst (bnd (resolve_poolclass env pc) (\<lambda>pool_class. ret (u, pool_class, ea'))))"
    then show "ev \<noteq> EvSessionmaker b kw"
      by (rule bnd_events) (auto simp add: ret_def dest: resolve_poolclass_events)
  qed
qed

lemma create_engines_events:
  "ev \<in> set (fst (create_engines env u p ea)) \<Longrightarrow> ev \<noteq> EvSessionmaker b kw"
  by (auto simp add: create_engines_def try_except_def call_engine_factory_def
      call_def raise_def split: sum.splits prod.splits if_splits)

lemma sqlite_hacks_events:
  "ev \<in> set (fst (sqlite_hacks env u e)) \<Longrightarrow> ev \<noteq> EvSessionmaker b kw"
  by (auto simp add: sqlite_hacks_def fst_bnd snd_bnd call_def call_unit_def ret_def
      split: sum.splits option.splits if_splits)

lemma engine_from_url_events:
  "ev \<in> set (fst (engine_from_url env url ea pc)) \<Longrightarrow> ev \<noteq> EvSessionmaker b kw"
  by (auto simp add: engine_from_url_def fst_bnd ret_def
      split: sum.splits prod.splits
      dest: engine_inputs_events create_engines_events sqlite_hacks_events)

lemma fixed_session_args_keys:
  "fixed_session_args sa ''expire_on_commit'' = Some (VBool False)"
  "fixed_session_args sa ''future'' = Some (VBool True)"
  by (simp_all add: fixed_session_args_def)

lemma session_class_args_other:
  "k \<noteq> ''class_'' \<Longrightarrow> session_class_args e sa k = sa k"
  by (simp add: session_class_args_def setdefault_def split: option.splits)

lemma init_events_sessionmaker:
  assumes "EvSessionmaker b kw \<in> set (fst (init env url bind_arg ea sa w pc n))"
  shows "\<exists>e. kw = session_class_args e (fixed_session_args sa)"
proof (cases bind_arg)
  case (Some b')
  with assms show ?thesis
    by (auto simp add: init_bind fst_bnd ret_def split: sum.splits dest: make_sessionmaker_events)
next
  case None
  with assms show ?thesis
    by (auto simp add: init_def Let_def fst_bnd ret_def split: sum.splits prod.splits
        dest: make_sessionmaker_events engine_from_url_events)
qed

lemma init_result:
  assumes "snd (init env url bind_arg ea sa w pc n) = Inr c"
  shows "sessionmaker c = Sessionmaker (bind c) (session_class_args (engine c) (fixed_session_args sa))
    \<and> resource_name c = n \<and> commit_executor_workers c = w
    \<and> (case bind_arg of Some b \<Rightarrow> bind c = b \<and> engine c = engine_attr env b
        | None \<Rightarrow> bind c = engine c)"
  using assms
  by (auto simp add: init_def Let_def snd_bnd ret_def make_sessionmaker_def raise_def
      engine_from_url_def
      split: sum.splits prod.splits option.splits if_splits)

lemma create_engines_cases:
  "''poolclass'' \<notin> dom ea \<Longrightarrow>
   create_engines env u p ea =
     (case create_async_engine env u p ea of
        Inr e \<Rightarrow> ([EvCreateAsyncEngine u p ea], Inr e)
      | Inl x \<Rightarrow>
          if x = InvalidRequestError
          then ([EvCreateAsyncEngine u p ea, EvCreateEngine u p ea], create_engine env u p ea)
          else ([EvCreateAsyncEngine u p ea], Inl x))"
  by (simp add: create_engines_def try_except_def call_engine_factory_def call_def
      is_InvalidRequestError_def split: sum.splits)

lemma create_engines_first:
  "''poolclass'' \<notin> dom ea \<Longrightarrow>
   \<exists>rest. fst (create_engines env u p ea) = EvCreateAsyncEngine u p ea # rest"
  by (simp add: create_engines_cases split: sum.splits)

lemma init_url_raises:
  assumes "engine_inputs env url (or_empty engine_args) poolclass = (pre, Inr (u, p, ea))"
    and "create_engines env u p ea = (pre_url, Inl e)"
  shows "init env url None engine_args session_args workers poolclass name = (pre @ pre_url, Inl e)"
  using assms by (simp add: init_def engine_from_url_def Let_def bnd_def)

lemma init_url_engine:
  assumes "engine_inputs env url (or_empty engine_args) poolclass = (pre, Inr (u, p, ea))"
    and "snd (create_engines env u p ea) = Inr e"
    and "snd (init env url None engine_args session_args workers poolclass name) = Inr c"
  shows "bind c = e \<and> engine c = e"
  using assms
  by (auto simp add: init_def engine_from_url_def Let_def snd_bnd ret_def
      split: sum.splits prod.splits)

lemma sqlite_connect_args_sqlite:
  assumes "get_dialect_name env u = Inr ''sqlite''"
    and "ea ''connect_args'' = None \<and> ca = Map.empty \<or> ea ''connect_args'' = Some (VDict ca)"
  shows "sqlite_connect_args env u ea =
     ([EvGetDialect u],
      Inr (ea(''connect_args'' \<mapsto>
             VDict (case ca ''check_same_thread'' of
                      None \<Rightarrow> ca(''check_same_thread'' \<mapsto> VBool False)
                    | Some v \<Rightarrow> ca))))"
  using assms
  by (auto simp add: sqlite_connect_args_def bnd_def call_def ret_def setdefault_def
      split: option.splits)

lemma engine_inputs_ok:
  assumes "normalize_url env url = (pre_url, Inr u)"
    and "sqlite_connect_args env u ea = (pre_args, Inr ea')"
    and "resolve_poolclass env poolclass = (pre_pool, Inr p)"
  shows "engine_inputs env url ea poolclass = (pre_url @ pre_args @ pre_pool, Inr (u, p, ea'))"
  using assms by (simp add: engine_inputs_def bnd_def ret_def)

lemma init_url_events:
  assumes "engine_inputs env url (or_empty engine_args) poolclass = (pre, Inr (u, p, ea))"
  shows "\<exists>rest. fst (init env url None engine_args session_args workers poolclass name) =
     pre @ fst (create_engines env u p ea) @ rest"
  using assms by (simp add: init_def engine_from_url_def Let_def fst_bnd split: sum.splits)

lemma start_teardown_events:
  "fst (start_teardown env c) =
     (if cls (bind c) = Engine then [EvDispose (bind c)]
      else if cls (bind c) = AsyncEngine then [EvAwaitDispose (bind c)]
      else [])
     @ (if (cls (bind c) = Engine \<or> cls (bind c) = AsyncEngine) \<and> dispose env (bind c) \<noteq> None
        then []
        else [EvLogInfo (''SQLAlchemy resources ('' @ resource_name c @ '') shut down'')])"
  by (auto simp add: start_teardown_def fst_bnd call_unit_def ret_def split: option.splits)

lemma start_teardown_result:
  "snd (start_teardown env c) =
     (if cls (bind c) = Engine \<or> cls (bind c) = AsyncEngine
      then (case dispose env (bind c) of None \<Rightarrow> Inr () | Some e \<Rightarrow> Inl e)
      else Inr ())"
  by (auto simp add: start_teardown_def snd_bnd call_unit_def ret_def split: option.splits)

text \<open>
  C4. With neither \<^verbatim>\<open>url\<close> nor \<^verbatim>\<open>bind\<close>, whatever the other arguments and whatever
  the collaborators would do, the constructor raises the \<^verbatim>\<open>TypeError\<close> of line 102
  and has called no collaborator before: no URL was parsed, no engine built, no session
  factory made.
\<close>

theorem init_without_url_and_bind_raises:
  \<open>init env None None engine_args session_args workers poolclass name =
     ([], Inl (TypeError ''both "url" and "bind" cannot be None''))\<close>
  by (simp add: init_def engine_from_url_def engine_inputs_def normalize_url_def bnd_raise Let_def)
    (simp add: raise_def)

text \<open>
  C10. With \<^verbatim>\<open>bind\<close> given, the constructor does the same whatever \<^verbatim>\<open>url\<close>,
  \<^verbatim>\<open>engine_args\<close> and \<^verbatim>\<open>poolclass\<close> are; the only collaborator it calls is the
  session factory's constructor, with the bind itself, so nothing of the URL branch runs;
  and when that call goes through (no second \<^verbatim>\<open>bind\<close> among the session arguments,
  and \<^verbatim>\<open>sessionmaker\<close> returns), the constructor returns the component with that bind
  and the bind's engine.
\<close>

theorem init_with_bind_ignores_url:
  "init env url (Some b) engine_args session_args workers poolclass name =
     init env url' (Some b) engine_args' session_args workers poolclass' name
   \<and> (\<forall>ev \<in> set (fst (init env url (Some b) engine_args session_args workers poolclass name)).
        ev = EvSessionmaker b
               (session_class_args (engine_attr env b) (fixed_session_args session_args)))
   \<and> (''bind'' \<notin> dom (or_empty session_args)
        \<and> sessionmaker_new env b
             (session_class_args (engine_attr env b) (fixed_session_args session_args)) = None
      \<longrightarrow> init env url (Some b) engine_args session_args workers poolclass name =
            ([EvSessionmaker b
                (session_class_args (engine_attr env b) (fixed_session_args session_args))],
             Inr \<lparr>resource_name = name, commit_executor_workers = workers,
                  bind = b, engine = engine_attr env b,
                  sessionmaker = Sessionmaker b
                    (session_class_args (engine_attr env b) (fixed_session_args session_args))\<rparr>))"
proof (intro conjI ballI impI)
  show "init env url (Some b) engine_args session_args workers poolclass name =
     init env url' (Some b) engine_args' session_args workers poolclass' name"
    by (simp add: init_bind)
next
  fix ev
  assume "ev \<in> set (fst (init env url (Some b) engine_args session_args workers poolclass name))"
  then show "ev = EvSessionmaker b
               (session_class_args (engine_attr env b) (fixed_session_args session_args))"
    by (auto simp add: init_bind fst_bnd ret_def split: sum.splits dest: make_sessionmaker_events)
next
  let ?kw = "session_class_args (engine_attr env b) (fixed_session_args session_args)"
  assume a: "''bind'' \<notin> dom (or_empty session_args) \<and> sessionmaker_new env b ?kw = None"
  then have "''bind'' \<notin> dom ?kw"
    by (auto simp add: session_class_args_def fixed_session_args_def setdefault_def
        split: option.splits if_splits)
  with a have "make_sessionmaker env b ?kw = ([EvSessionmaker b ?kw], Inr (Sessionmaker b ?kw))"
    by (simp add: make_sessionmaker_ok)
  then show "init env url (Some b) engine_args session_args workers poolclass name =
            ([EvSessionmaker b ?kw],
             Inr \<lparr>resource_name = name, commit_executor_workers = workers,
                  bind = b, engine = engine_attr env b,
                  sessionmaker = Sessionmaker b ?kw\<rparr>)"
    by (simp add: init_bind bnd_Inr ret_def)
qed

text \<open>
  The theorem with both \<^verbatim>\<open>url\<close> and \<^verbatim>\<open>bind\<close> given: no error, and the session
  factory's constructor is the one call made.
\<close>

theorem init_with_bind_ignores_url_witness:
  "init sqlite_env (Some (UrlStr ''sqlite:///:memory:'')) (Some (DbObj Engine 7))
     (Some [''echo'' \<mapsto> VBool True]) None 5 (VStr ''sqlalchemy.pool:NullPool'') ''default'' =
     ([EvSessionmaker (DbObj Engine 7)
         [''expire_on_commit'' \<mapsto> VBool False, ''future'' \<mapsto> VBool True]],
      Inr \<lparr>resource_name = ''default'', commit_executor_workers = 5,
           bind = DbObj Engine 7, engine = DbObj Engine 7,
           sessionmaker = Sessionmaker (DbObj Engine 7)
             [''expire_on_commit'' \<mapsto> VBool False, ''future'' \<mapsto> VBool True]\<rparr>)"
proof -
  note inst = init_with_bind_ignores_url
    [where env = sqlite_env and url = "Some (UrlStr ''sqlite:///:memory:'')"
       and b = "DbObj Engine 7" and engine_args = "Some [''echo'' \<mapsto> VBool True]"
       and session_args = None and workers = 5
       and poolclass = "VStr ''sqlalchemy.pool:NullPool''" and name = "''default''"
       and url' = None and engine_args' = None and poolclass' = VNone]
  have kw: "session_class_args (engine_attr sqlite_env (DbObj Engine 7)) (fixed_session_args None) =
      [''expire_on_commit'' \<mapsto> VBool False, ''future'' \<mapsto> VBool True]"
    by (simp add: sqlite_env_def engine_of_def session_class_args_def fixed_session_args_def
        or_empty_def)
  have ok: "''bind'' \<notin> dom (or_empty None)
      \<and> sessionmaker_new sqlite_env (DbObj Engine 7)
           (session_class_args (engine_attr sqlite_env (DbObj Engine 7)) (fixed_session_args None))
         = None"
    by (simp add: sqlite_env_def or_empty_def)
  from inst [THEN conjunct2, THEN conjunct2, rule_format, OF ok]
  show ?thesis
    unfolding kw by (simp add: sqlite_env_def engine_of_def)
qed

text \<open>
  C3. For every \<^verbatim>\<open>session_args\<close> and every other argument: whenever the constructor
  calls the session factory's constructor, the keyword arguments it passes have
  \<^verbatim>\<open>expire_on_commit\<close> equal to \<^verbatim>\<open>False\<close> and \<^verbatim>\<open>future\<close> equal to \<^verbatim>\<open>True\<close>;
  and so has the session factory of every component the constructor returns.
\<close>

theorem session_args_forced:
  "(\<forall>ev \<in> set (fst (init env url bind_arg engine_args session_args workers poolclass name)).
      \<forall>b kw. ev = EvSessionmaker b kw \<longrightarrow>
        kw ''expire_on_commit'' = Some (VBool False) \<and> kw ''future'' = Some (VBool True))
   \<and> (\<forall>c. snd (init env url bind_arg engine_args session_args workers poolclass name) = Inr c \<longrightarrow>
        sm_kw (sessionmaker c) ''expire_on_commit'' = Some (VBool False)
        \<and> sm_kw (sessionmaker c) ''future'' = Some (VBool True))"
proof (intro conjI ballI allI impI)
  fix ev b kw
  assume "ev \<in> set (fst (init env url bind_arg engine_args session_args workers poolclass name))"
    and "ev = EvSessionmaker b kw"
  then obtain e where kw: "kw = session_class_args e (fixed_session_args session_args)"
    using init_events_sessionmaker by blast
  show "kw ''expire_on_commit'' = Some (VBool False)"
    unfolding kw by (simp add: session_class_args_other fixed_session_args_keys)
  show "kw ''future'' = Some (VBool True)"
    unfolding kw by (simp add: session_class_args_other fixed_session_args_keys)
next
  fix c
  assume "snd (init env url bind_arg engine_args session_args workers poolclass name) = Inr c"
  then have sm: "sessionmaker c =
      Sessionmaker (bind c) (session_class_args (engine c) (fixed_session_args session_args))"
    using init_result by blast
  show "sm_kw (sessionmaker c) ''expire_on_commit'' = Some (VBool False)"
    unfolding sm by (simp add: session_class_args_other fixed_session_args_keys)
  show "sm_kw (sessionmaker c) ''future'' = Some (VBool True)"
    unfolding sm by (simp add: session_class_args_other fixed_session_args_keys)
qed

text \<open>The theorem at session arguments that ask for the opposite of both.\<close>

theorem session_args_forced_witness:
  "EvSessionmaker (DbObj Engine 7)
      (fixed_session_args
         (Some [''expire_on_commit'' \<mapsto> VBool True, ''future'' \<mapsto> VBool False]))
     \<in> set (fst (init sqlite_env None (Some (DbObj Engine 7)) None
                  (Some [''expire_on_commit'' \<mapsto> VBool True, ''future'' \<mapsto> VBool False])
                  5 VNone ''default''))
   \<and> fixed_session_args
        (Some [''expire_on_commit'' \<mapsto> VBool True, ''future'' \<mapsto> VBool False])
        ''expire_on_commit'' = Some (VBool False)
   \<and> fixed_session_args
        (Some [''expire_on_commit'' \<mapsto> VBool True, ''future'' \<mapsto> VBool False])
        ''future'' = Some (VBool True)"
proof -
  let ?sa = "Some [''expire_on_commit'' \<mapsto> VBool True, ''future'' \<mapsto> VBool False]"
  let ?t = "fst (init sqlite_env None (Some (DbObj Engine 7)) None ?sa 5 VNone ''default'')"
  have mem: "EvSessionmaker (DbObj Engine 7) (fixed_session_args ?sa) \<in> set ?t"
    by (simp add: init_bind make_sessionmaker_def session_class_args_def fixed_session_args_def
        or_empty_def sqlite_env_def engine_of_def bnd_def call_unit_def ret_def)
  from session_args_forced
    [where env = sqlite_env and url = None and bind_arg = "Some (DbObj Engine 7)"
       and engine_args = None and session_args = ?sa and workers = 5 and poolclass = VNone
       and name = "''default''"]
  have "\<forall>ev \<in> set ?t. \<forall>b kw. ev = EvSessionmaker b kw \<longrightarrow>
        kw ''expire_on_commit'' = Some (VBool False) \<and> kw ''future'' = Some (VBool True)"
    by (rule conjunct1)
  with mem show ?thesis by blast
qed

text \<open>
  C5, as the code has it. In every component the constructor returns whose engine is an
  \<^verbatim>\<open>AsyncEngine\<close>, the session factory's \<^verbatim>\<open>class_\<close> is \<^verbatim>\<open>AsyncSession\<close> when the
  caller's \<^verbatim>\<open>session_args\<close> had no \<^verbatim>\<open>class_\<close>, and is the caller's value when
  they had one; with any other engine \<^verbatim>\<open>class_\<close> is left as the caller gave it.
\<close>

theorem async_session_class_is_default:
  "snd (init env url bind_arg engine_args session_args workers poolclass name) = Inr c \<Longrightarrow>
   sm_kw (sessionmaker c) ''class_'' =
     (if cls (engine c) = AsyncEngine
      then (case or_empty session_args ''class_'' of
              None \<Rightarrow> Some (VClass ''AsyncSession'')
            | Some v \<Rightarrow> Some v)
      else or_empty session_args ''class_'')"
proof -
  assume "snd (init env url bind_arg engine_args session_args workers poolclass name) = Inr c"
  then have sm: "sessionmaker c =
      Sessionmaker (bind c) (session_class_args (engine c) (fixed_session_args session_args))"
    using init_result by blast
  show ?thesis
    unfolding sm
    by (simp add: session_class_args_def setdefault_def fixed_session_args_def
        split: option.splits)
qed

theorem async_session_class_is_default_witness:
  "snd (init asyncpg_env (Some (UrlStr ''postgresql+asyncpg://localhost/db'')) None None None
          5 VNone ''default'') =
     Inr \<lparr>resource_name = ''default'', commit_executor_workers = 5,
          bind = DbObj AsyncEngine 1, engine = DbObj AsyncEngine 1,
          sessionmaker = Sessionmaker (DbObj AsyncEngine 1)
            [''expire_on_commit'' \<mapsto> VBool False, ''future'' \<mapsto> VBool True,
             ''class_'' \<mapsto> VClass ''AsyncSession'']\<rparr>
   \<and> [''expire_on_commit'' \<mapsto> VBool False, ''future'' \<mapsto> VBool True,
       ''class_'' \<mapsto> VClass ''AsyncSession''] ''class_'' = Some (VClass ''AsyncSession'')"
proof -
  let ?r = "init asyncpg_env (Some (UrlStr ''postgresql+asyncpg://localhost/db'')) None None None
          5 VNone ''default''"
  let ?c = "\<lparr>resource_name = ''default'', commit_executor_workers = 5,
          bind = DbObj AsyncEngine 1, engine = DbObj AsyncEngine 1,
          sessionmaker = Sessionmaker (DbObj AsyncEngine 1)
            [''expire_on_commit'' \<mapsto> VBool False, ''future'' \<mapsto> VBool True,
             ''class_'' \<mapsto> VClass ''AsyncSession'']\<rparr>"
  have r: "snd ?r = Inr ?c"
    by (simp add: init_def engine_from_url_def engine_inputs_def normalize_url_def
        sqlite_connect_args_def resolve_poolclass_def create_engines_def try_except_def
        call_engine_factory_def sqlite_hacks_def make_sessionmaker_def fixed_session_args_def
        session_class_args_def setdefault_def or_empty_def bnd_def call_def call_unit_def
        ret_def raise_def is_InvalidRequestError_def Let_def asyncpg_env_def)
  from async_session_class_is_default [OF r] r show ?thesis
    by (simp add: or_empty_def)
qed

text \<open>
  C5, as the claim has it, fails: with an asynchronous engine and
  \<^verbatim>\<open>session_args = {"class_": Session}\<close> the session factory is built with the
  caller's class, not with \<^verbatim>\<open>AsyncSession\<close>.
\<close>

theorem caller_session_class_is_kept:
  "snd (init asyncpg_env (Some (UrlStr ''postgresql+asyncpg://localhost/db'')) None None
          (Some [''class_'' \<mapsto> VClass ''Session'']) 5 VNone ''default'') =
     Inr \<lparr>resource_name = ''default'', commit_executor_workers = 5,
          bind = DbObj AsyncEngine 1, engine = DbObj AsyncEngine 1,
          sessionmaker = Sessionmaker (DbObj AsyncEngine 1)
            [''class_'' \<mapsto> VClass ''Session'',
             ''expire_on_commit'' \<mapsto> VBool False, ''future'' \<mapsto> VBool True]\<rparr>
   \<and> [''class_'' \<mapsto> VClass ''Session'',
       ''expire_on_commit'' \<mapsto> VBool False, ''future'' \<mapsto> VBool True] ''class_''
       \<noteq> Some (VClass ''AsyncSession'')"
  by (simp add: init_def engine_from_url_def engine_inputs_def normalize_url_def
        sqlite_connect_args_def resolve_poolclass_def create_engines_def try_except_def
        call_engine_factory_def sqlite_hacks_def make_sessionmaker_def fixed_session_args_def
        session_class_args_def setdefault_def or_empty_def bnd_def call_def call_unit_def
        ret_def raise_def is_InvalidRequestError_def Let_def asyncpg_env_def)

text \<open>
  C2. Lines 115-122, called with engine arguments that do not themselves name
  \<^verbatim>\<open>poolclass\<close>: the asynchronous constructor is called first; when it raises
  \<^verbatim>\<open>InvalidRequestError\<close> the synchronous constructor is called next with the same
  URL, pool class and engine arguments, and the outcome is the synchronous constructor's
  alone; when it raises anything else, that exception is the outcome and the
  synchronous constructor is not called; when it returns, its engine is the outcome.
  In \<^verbatim>\<open>__init__\<close>, reached through the URL branch: an exception that leaves these
  lines leaves the constructor unchanged, with no further call; an engine that leaves
  them is the bind and the engine of the component returned.
\<close>

theorem engine_resolution_async_first:
  "''poolclass'' \<notin> dom ea \<Longrightarrow>
   (\<exists>rest. fst (create_engines env u p ea) = EvCreateAsyncEngine u p ea # rest)
   \<and> (create_async_engine env u p ea = Inl InvalidRequestError \<longrightarrow>
        create_engines env u p ea =
          ([EvCreateAsyncEngine u p ea, EvCreateEngine u p ea], create_engine env u p ea))
   \<and> (\<forall>x. create_async_engine env u p ea = Inl x \<and> x \<noteq> InvalidRequestError \<longrightarrow>
        create_engines env u p ea = ([EvCreateAsyncEngine u p ea], Inl x))
   \<and> (\<forall>e. create_async_engine env u p ea = Inr e \<longrightarrow>
        create_engines env u p ea = ([EvCreateAsyncEngine u p ea], Inr e))
   \<and> (engine_inputs env url (or_empty engine_args) poolclass = (pre, Inr (u, p, ea)) \<longrightarrow>
        (\<forall>x. snd (create_engines env u p ea) = Inl x \<longrightarrow>
           init env url None engine_args session_args workers poolclass name =
             (pre @ fst (create_engines env u p ea), Inl x))
        \<and> (\<forall>e c. snd (create_engines env u p ea) = Inr e
                 \<and> snd (init env url None engine_args session_args workers poolclass name) = Inr c
              \<longrightarrow> bind c = e \<and> engine c = e))"
proof -
  assume nc: "''poolclass'' \<notin> dom ea"
  note ce = create_engines_cases [OF nc, of env u p]
  have 1: "\<exists>rest. fst (create_engines env u p ea) = EvCreateAsyncEngine u p ea # rest"
    using nc by (rule create_engines_first)
  have 2: "create_async_engine env u p ea = Inl InvalidRequestError \<longrightarrow>
        create_engines env u p ea =
          ([EvCreateAsyncEngine u p ea, EvCreateEngine u p ea], create_engine env u p ea)"
    by (simp add: ce)
  have 3: "\<forall>x. create_async_engine env u p ea = Inl x \<and> x \<noteq> InvalidRequestError \<longrightarrow>
        create_engines env u p ea = ([EvCreateAsyncEngine u p ea], Inl x)"
    by (simp add: ce)
  have 4: "\<forall>e. create_async_engine env u p ea = Inr e \<longrightarrow>
        create_engines env u p ea = ([EvCreateAsyncEngine u p ea], Inr e)"
    by (simp add: ce)
  have 5: "engine_inputs env url (or_empty engine_args) poolclass = (pre, Inr (u, p, ea)) \<longrightarrow>
        (\<forall>x. snd (create_engines env u p ea) = Inl x \<longrightarrow>
           init env url None engine_args session_args workers poolclass name =
             (pre @ fst (create_engines env u p ea), Inl x))
        \<and> (\<forall>e c. snd (create_engines env u p ea) = Inr e
                 \<and> snd (init env url None engine_args session_args workers poolclass name) = Inr c
              \<longrightarrow> bind c = e \<and> engine c = e)"
  proof (intro impI conjI allI)
    fix x
    assume inp: "engine_inputs env url (or_empty engine_args) poolclass = (pre, Inr (u, p, ea))"
      and "snd (create_engines env u p ea) = Inl x"
    then have "create_engines env u p ea = (fst (create_engines env u p ea), Inl x)"
      by (metis prod.collapse)
    from init_url_raises [OF inp this]
    show "init env url None engine_args session_args workers poolclass name =
             (pre @ fst (create_engines env u p ea), Inl x)" .
  next
    fix e c
    assume inp: "engine_inputs env url (or_empty engine_args) poolclass = (pre, Inr (u, p, ea))"
      and a: "snd (create_engines env u p ea) = Inr e
                 \<and> snd (init env url None engine_args session_args workers poolclass name) = Inr c"
    from init_url_engine [OF inp] a show "bind c = e" by blast
    from init_url_engine [OF inp] a show "engine c = e" by blast
  qed
  from 1 2 3 4 5 show ?thesis by blast
qed

text \<open>
  The theorem at a driver with no asynchronous support, where the fallback gives the
  synchronous engine, and at a driver whose asynchronous constructor fails otherwise,
  where the constructor stops with that failure.
\<close>

theorem engine_resolution_async_first_witness:
  "create_engines sqlite_env (URL ''sqlite:///:memory:'') VNone Map.empty =
     ([EvCreateAsyncEngine (URL ''sqlite:///:memory:'') VNone Map.empty,
       EvCreateEngine (URL ''sqlite:///:memory:'') VNone Map.empty],
      Inr (DbObj Engine 1))
   \<and> init unreachable_env (Some (UrlStr ''postgresql+asyncpg://localhost/db'')) None None None
        5 VNone ''default'' =
     ([EvMakeUrl ''postgresql+asyncpg://localhost/db'',
       EvGetDialect (URL ''postgresql+asyncpg://localhost/db''),
       EvCreateAsyncEngine (URL ''postgresql+asyncpg://localhost/db'') VNone Map.empty],
      Inl (OtherError ''OperationalError''))"
proof -
  have inp: "engine_inputs unreachable_env (Some (UrlStr ''postgresql+asyncpg://localhost/db''))
               (or_empty None) VNone =
     ([EvMakeUrl ''postgresql+asyncpg://localhost/db'',
       EvGetDialect (URL ''postgresql+asyncpg://localhost/db'')],
      Inr (URL ''postgresql+asyncpg://localhost/db'', VNone, Map.empty))"
    by (simp add: engine_inputs_def normalize_url_def sqlite_connect_args_def
        resolve_poolclass_def or_empty_def bnd_def call_def ret_def
        unreachable_env_def asyncpg_env_def)
  have a: "create_async_engine unreachable_env (URL ''postgresql+asyncpg://localhost/db'')
             VNone Map.empty = Inl (OtherError ''OperationalError'')"
    by (simp add: unreachable_env_def asyncpg_env_def)
  have b: "create_async_engine sqlite_env (URL ''sqlite:///:memory:'') VNone Map.empty =
             Inl InvalidRequestError"
    by (simp add: sqlite_env_def)
  have c: "create_engine sqlite_env (URL ''sqlite:///:memory:'') VNone Map.empty =
             Inr (DbObj Engine 1)"
    by (simp add: sqlite_env_def)
  from engine_resolution_async_first
    [where ea = Map.empty and env = sqlite_env and u = "URL ''sqlite:///:memory:''"
       and p = VNone]
    b c
  have 1: "create_engines sqlite_env (URL ''sqlite:///:memory:'') VNone Map.empty =
     ([EvCreateAsyncEngine (URL ''sqlite:///:memory:'') VNone Map.empty,
       EvCreateEngine (URL ''sqlite:///:memory:'') VNone Map.empty],
      Inr (DbObj Engine 1))"
    by simp
  from engine_resolution_async_first
    [where ea = Map.empty and env = unreachable_env
       and u = "URL ''postgresql+asyncpg://localhost/db''" and p = VNone
       and url = "Some (UrlStr ''postgresql+asyncpg://localhost/db'')"
       and engine_args = None and poolclass = VNone
       and pre = "[EvMakeUrl ''postgresql+asyncpg://localhost/db'',
                  EvGetDialect (URL ''postgresql+asyncpg://localhost/db'')]"
       and session_args = None and workers = 5 and name = "''default''"]
    inp a
  have 2: "init unreachable_env (Some (UrlStr ''postgresql+asyncpg://localhost/db'')) None None None
        5 VNone ''default'' =
     ([EvMakeUrl ''postgresql+asyncpg://localhost/db'',
       EvGetDialect (URL ''postgresql+asyncpg://localhost/db''),
       EvCreateAsyncEngine (URL ''postgresql+asyncpg://localhost/db'') VNone Map.empty],
      Inl (OtherError ''OperationalError''))"
    by simp
  from 1 2 show ?thesis by simp
qed

text \<open>
  C8. With a URL of the sqlite dialect and \<^verbatim>\<open>connect_args\<close> either absent from the
  engine arguments (\<open>ca\<close> is then empty) or a dictionary \<open>ca\<close>: lines 107-109 leave
  the engine arguments with \<^verbatim>\<open>connect_args\<close> equal to \<open>ca\<close> plus
  \<^verbatim>\<open>check_same_thread = False\<close> when \<open>ca\<close> has no \<^verbatim>\<open>check_same_thread\<close>, and equal
  to \<open>ca\<close> itself when it has one. With no \<^verbatim>\<open>bind\<close>, once the URL and the pool class
  are resolved, these are the engine arguments the constructor builds the engine from.
\<close>

theorem sqlite_check_same_thread_default:
  "get_dialect_name env u = Inr ''sqlite'' \<Longrightarrow>
   ea ''connect_args'' = None \<and> ca = Map.empty \<or> ea ''connect_args'' = Some (VDict ca) \<Longrightarrow>
   sqlite_connect_args env u ea =
     ([EvGetDialect u],
      Inr (ea(''connect_args'' \<mapsto>
             VDict (case ca ''check_same_thread'' of
                      None \<Rightarrow> ca(''check_same_thread'' \<mapsto> VBool False)
                    | Some v \<Rightarrow> ca))))
   \<and> (normalize_url env url = (pre_url, Inr u) \<and> or_empty engine_args = ea
        \<and> resolve_poolclass env poolclass = (pre_pool, Inr p) \<and> ''poolclass'' \<notin> dom ea \<longrightarrow>
        (\<exists>rest. fst (init env url None engine_args session_args workers poolclass name) =
           pre_url @ [EvGetDialect u] @ pre_pool
             @ EvCreateAsyncEngine u p
                 (ea(''connect_args'' \<mapsto>
                    VDict (case ca ''check_same_thread'' of
                             None \<Rightarrow> ca(''check_same_thread'' \<mapsto> VBool False)
                           | Some v \<Rightarrow> ca))) # rest))"
proof -
  let ?ea' = "ea(''connect_args'' \<mapsto>
             VDict (case ca ''check_same_thread'' of
                      None \<Rightarrow> ca(''check_same_thread'' \<mapsto> VBool False)
                    | Some v \<Rightarrow> ca))"
  assume d: "get_dialect_name env u = Inr ''sqlite''"
    and c: "ea ''connect_args'' = None \<and> ca = Map.empty \<or> ea ''connect_args'' = Some (VDict ca)"
  have stage: "sqlite_connect_args env u ea = ([EvGetDialect u], Inr ?ea')"
    using d c by (rule sqlite_connect_args_sqlite)
  have whole: "\<exists>rest. fst (init env url None engine_args session_args workers poolclass name) =
           pre_url @ [EvGetDialect u] @ pre_pool @ EvCreateAsyncEngine u p ?ea' # rest"
    if a: "normalize_url env url = (pre_url, Inr u) \<and> or_empty engine_args = ea
        \<and> resolve_poolclass env poolclass = (pre_pool, Inr p) \<and> ''poolclass'' \<notin> dom ea"
  proof -
    from a stage have "engine_inputs env url (or_empty engine_args) poolclass =
        (pre_url @ [EvGetDialect u] @ pre_pool, Inr (u, p, ?ea'))"
      by (simp add: engine_inputs_ok)
    from init_url_events [OF this] obtain rest where
      r: "fst (init env url None engine_args session_args workers poolclass name) =
          (pre_url @ [EvGetDialect u] @ pre_pool) @ fst (create_engines env u p ?ea') @ rest"
      by blast
    from a have "''poolclass'' \<notin> dom ?ea'" by auto
    from create_engines_first [OF this] obtain rest' where
      "fst (create_engines env u p ?ea') = EvCreateAsyncEngine u p ?ea' # rest'"
      by blast
    with r show ?thesis by simp
  qed
  from stage whole show ?thesis by blast
qed

text \<open>
  The theorem at \<^verbatim>\<open>connect_args = {"check_same_thread": True, "timeout": 5}\<close>: the
  caller's value stays. The first three calls of the constructor are the URL's parsing,
  the dialect lookup and the engine construction with the caller's dictionary.
\<close>

theorem sqlite_check_same_thread_default_witness:
  "sqlite_connect_args sqlite_env (URL ''sqlite:///:memory:'')
     [''connect_args'' \<mapsto>
        VDict [''check_same_thread'' \<mapsto> VBool True, ''timeout'' \<mapsto> VInt 5]] =
     ([EvGetDialect (URL ''sqlite:///:memory:'')],
      Inr [''connect_args'' \<mapsto>
             VDict [''check_same_thread'' \<mapsto> VBool True, ''timeout'' \<mapsto> VInt 5]])
   \<and> take 3 (fst (init sqlite_env (Some (UrlStr ''sqlite:///:memory:'')) None
                    (Some [''connect_args'' \<mapsto>
                       VDict [''check_same_thread'' \<mapsto> VBool True, ''timeout'' \<mapsto> VInt 5]])
                    None 5 VNone ''default'')) =
     [EvMakeUrl ''sqlite:///:memory:'',
      EvGetDialect (URL ''sqlite:///:memory:''),
      EvCreateAsyncEngine (URL ''sqlite:///:memory:'') VNone
        [''connect_args'' \<mapsto>
           VDict [''check_same_thread'' \<mapsto> VBool True, ''timeout'' \<mapsto> VInt 5]]]"
proof -
  let ?ca = "[''check_same_thread'' \<mapsto> VBool True, ''timeout'' \<mapsto> VInt 5]"
  let ?ea = "[''connect_args'' \<mapsto> VDict ?ca]"
  let ?u = "URL ''sqlite:///:memory:''"
  have d: "get_dialect_name sqlite_env ?u = Inr ''sqlite''"
    by (simp add: sqlite_env_def)
  have c: "?ea ''connect_args'' = None \<and> ?ca = Map.empty \<or> ?ea ''connect_args'' = Some (VDict ?ca)"
    by simp
  have n: "normalize_url sqlite_env (Some (UrlStr ''sqlite:///:memory:'')) =
             ([EvMakeUrl ''sqlite:///:memory:''], Inr ?u)
           \<and> or_empty (Some ?ea) = ?ea
           \<and> resolve_poolclass sqlite_env VNone = ([], Inr VNone)
           \<and> ''poolclass'' \<notin> dom ?ea"
    by (simp add: normalize_url_def resolve_poolclass_def or_empty_def call_def ret_def
        sqlite_env_def)
  have same: "?ea(''connect_args'' \<mapsto>
             VDict (case ?ca ''check_same_thread'' of
                      None \<Rightarrow> ?ca(''check_same_thread'' \<mapsto> VBool False)
                    | Some v \<Rightarrow> ?ca)) = ?ea"
    by simp
  note inst = sqlite_check_same_thread_default
    [where env = sqlite_env and u = ?u and ea = ?ea and ca = ?ca
       and url = "Some (UrlStr ''sqlite:///:memory:'')"
       and pre_url = "[EvMakeUrl ''sqlite:///:memory:'']" and engine_args = "Some ?ea"
       and poolclass = VNone and pre_pool = "[]" and p = VNone and session_args = None
       and workers = 5 and name = "''default''", OF d c]
  from inst have 1: "sqlite_connect_args sqlite_env ?u ?ea = ([EvGetDialect ?u], Inr ?ea)"
    unfolding same by (rule conjunct1)
  from inst n obtain rest where
    "fst (init sqlite_env (Some (UrlStr ''sqlite:///:memory:'')) None (Some ?ea) None 5 VNone
            ''default'') =
       [EvMakeUrl ''sqlite:///:memory:''] @ [EvGetDialect ?u] @ []
         @ EvCreateAsyncEngine ?u VNone ?ea # rest"
    unfolding same by blast
  then have 2: "take 3 (fst (init sqlite_env (Some (UrlStr ''sqlite:///:memory:'')) None
                    (Some ?ea) None 5 VNone ''default'')) =
     [EvMakeUrl ''sqlite:///:memory:'', EvGetDialect ?u, EvCreateAsyncEngine ?u VNone ?ea]"
    by simp
  from 1 2 show ?thesis by (rule conjI)
qed

text \<open>
  C9, as the code has it. At shutdown the component's bind is disposed exactly when it
  is an engine, whoever made it: \<^verbatim>\<open>dispose()\<close> is called on an \<^verbatim>\<open>Engine\<close>,
  awaited on an \<^verbatim>\<open>AsyncEngine\<close>, and not called on anything else; an exception of the
  disposal leaves the shutdown (and the log line is not written). Whatever the caller
  gave as \<^verbatim>\<open>bind\<close> is the component's bind: an engine given so is disposed like one
  the constructor built, and a connection given so, synchronous or asynchronous, is
  never disposed. An engine the constructor built from the URL is the component's bind.
\<close>

theorem shutdown_disposes_bind_when_engine:
  "fst (start_teardown env c) =
     (if cls (bind c) = Engine then [EvDispose (bind c)]
      else if cls (bind c) = AsyncEngine then [EvAwaitDispose (bind c)]
      else [])
     @ (if (cls (bind c) = Engine \<or> cls (bind c) = AsyncEngine) \<and> dispose env (bind c) \<noteq> None
        then []
        else [EvLogInfo (''SQLAlchemy resources ('' @ resource_name c @ '') shut down'')])
   \<and> snd (start_teardown env c) =
     (if cls (bind c) = Engine \<or> cls (bind c) = AsyncEngine
      then (case dispose env (bind c) of None \<Rightarrow> Inr () | Some e \<Rightarrow> Inl e)
      else Inr ())
   \<and> (\<forall>b. snd (init env url (Some b) engine_args session_args workers poolclass name) = Inr c
        \<longrightarrow> bind c = b
            \<and> (\<exists>rest. fst (start_teardown env c) =
                  (if cls b = Engine then [EvDispose b]
                   else if cls b = AsyncEngine then [EvAwaitDispose b]
                   else []) @ rest
                  \<and> (\<forall>x. EvDispose x \<notin> set rest \<and> EvAwaitDispose x \<notin> set rest)))
   \<and> (\<forall>pre u p ea e.
          engine_inputs env url (or_empty engine_args) poolclass = (pre, Inr (u, p, ea))
          \<and> snd (create_engines env u p ea) = Inr e
          \<and> snd (init env url None engine_args session_args workers poolclass name) = Inr c
        \<longrightarrow> bind c = e)"
proof (intro conjI allI impI)
  fix b
  assume a: "snd (init env url (Some b) engine_args session_args workers poolclass name) = Inr c"
  then show b: "bind c = b"
    using init_result [of env url "Some b" engine_args session_args workers poolclass name c]
    by simp
  let ?rest = "if (cls b = Engine \<or> cls b = AsyncEngine) \<and> dispose env b \<noteq> None
        then []
        else [EvLogInfo (''SQLAlchemy resources ('' @ resource_name c @ '') shut down'')]"
  have "fst (start_teardown env c) =
          (if cls b = Engine then [EvDispose b]
           else if cls b = AsyncEngine then [EvAwaitDispose b]
           else []) @ ?rest"
    by (simp add: start_teardown_events b)
  moreover have "\<forall>x. EvDispose x \<notin> set ?rest \<and> EvAwaitDispose x \<notin> set ?rest"
    by simp
  ultimately show "\<exists>rest. fst (start_teardown env c) =
                  (if cls b = Engine then [EvDispose b]
                   else if cls b = AsyncEngine then [EvAwaitDispose b]
                   else []) @ rest
                  \<and> (\<forall>x. EvDispose x \<notin> set rest \<and> EvAwaitDispose x \<notin> set rest)"
    by blast
next
  fix pre u p ea e
  assume "engine_inputs env url (or_empty engine_args) poolclass = (pre, Inr (u, p, ea))
          \<and> snd (create_engines env u p ea) = Inr e
          \<and> snd (init env url None engine_args session_args workers poolclass name) = Inr c"
  then show "bind c = e"
    using init_url_engine [of env url engine_args poolclass pre u p ea e session_args workers name c]
    by blast
qed (simp_all add: start_teardown_events start_teardown_result)

text \<open>
  The theorem at a component built around a caller's connection, which is left alone,
  and at the same component holding an engine instead.
\<close>

theorem shutdown_disposes_bind_when_engine_witness:
  "snd (init sqlite_env None (Some (DbObj Connection 3)) None None 5 VNone ''default'') =
     Inr connection_component
   \<and> bind connection_component = DbObj Connection 3
   \<and> fst (start_teardown sqlite_env connection_component) =
       [EvLogInfo ''SQLAlchemy resources (default) shut down'']
   \<and> fst (start_teardown sqlite_env (connection_component\<lparr>bind := DbObj Engine 1\<rparr>)) =
       [EvDispose (DbObj Engine 1), EvLogInfo ''SQLAlchemy resources (default) shut down'']
   \<and> fst (start_teardown sqlite_env (connection_component\<lparr>bind := DbObj AsyncEngine 1\<rparr>)) =
       [EvAwaitDispose (DbObj AsyncEngine 1),
        EvLogInfo ''SQLAlchemy resources (default) shut down'']"
proof -
  have r: "snd (init sqlite_env None (Some (DbObj Connection 3)) None None 5 VNone ''default'') =
     Inr connection_component"
    by (simp add: init_bind make_sessionmaker_def session_class_args_def fixed_session_args_def
        or_empty_def sqlite_env_def engine_of_def bnd_def call_unit_def ret_def
        connection_component_def)
  note inst = shutdown_disposes_bind_when_engine
    [where env = sqlite_env and url = None and engine_args = None and session_args = None
       and workers = 5 and poolclass = VNone and name = "''default''"]
  from inst [where c = connection_component, THEN conjunct2, THEN conjunct2, THEN conjunct1,
      rule_format, OF r]
  have 1: "bind connection_component = DbObj Connection 3"
    by blast
  from inst [where c = connection_component]
  have 2: "fst (start_teardown sqlite_env connection_component) =
       [EvLogInfo ''SQLAlchemy resources (default) shut down'']"
    by (simp add: connection_component_def)
  from inst [where c = "connection_component\<lparr>bind := DbObj Engine 1\<rparr>"]
  have 3: "fst (start_teardown sqlite_env (connection_component\<lparr>bind := DbObj Engine 1\<rparr>)) =
       [EvDispose (DbObj Engine 1), EvLogInfo ''SQLAlchemy resources (default) shut down'']"
    by (simp add: connection_component_def sqlite_env_def)
  from inst [where c = "connection_component\<lparr>bind := DbObj AsyncEngine 1\<rparr>"]
  have 4: "fst (start_teardown sqlite_env (connection_component\<lparr>bind := DbObj AsyncEngine 1\<rparr>)) =
       [EvAwaitDispose (DbObj AsyncEngine 1),
        EvLogInfo ''SQLAlchemy resources (default) shut down'']"
    by (simp add: connection_component_def sqlite_env_def)
  from r 1 2 3 4 show ?thesis by simp
qed

text \<open>
  C9, as the claim has it, fails: an engine that the caller made and gave as
  \<^verbatim>\<open>bind\<close> is not the component's own, the constructor builds no engine (its one
  call is the session factory's constructor), and yet the shutdown disposes that
  engine.
\<close>

theorem supplied_engine_is_disposed:
  "init sqlite_env None (Some (DbObj Engine 7)) None None 5 VNone ''default'' =
     ([EvSessionmaker (DbObj Engine 7)
         [''expire_on_commit'' \<mapsto> VBool False, ''future'' \<mapsto> VBool True]],
      Inr engine_component)
   \<and> fst (start_teardown sqlite_env engine_component) =
       [EvDispose (DbObj Engine 7), EvLogInfo ''SQLAlchemy resources (default) shut down'']"
  by (simp add: init_bind make_sessionmaker_def session_class_args_def fixed_session_args_def
      or_empty_def sqlite_env_def engine_of_def bnd_def call_unit_def ret_def
      engine_component_def start_teardown_def)

end
